theory Spec2Isabelle
  imports Main "HOL-Library.AList"
begin

section \<open>JavaScript values and strings\<close>

text \<open>
  The TypeScript sources under verification are \<^verbatim>\<open>src/services/api.ts\<close> (the axios
  client, its credential storage and its two interceptors) and
  \<^verbatim>\<open>src/utils/errorHandling.ts\<close> (\<^verbatim>\<open>parseLoginError\<close>).

  A JavaScript string is modelled as the byte list of its UTF-8 encoding: the sources
  only concatenate strings and search them for substrings, and on well-formed text a
  substring search on UTF-8 bytes finds what the search on UTF-16 code units finds.
  The Chinese literals of the sources are therefore written byte by byte.
\<close>

text \<open>\<^verbatim>\<open>kw_network\<close>: the two characters U+7F51 U+7EDC, the word for network (2 characters).\<close>

definition kw_network :: string where
  "kw_network = [CHR 0xE7, CHR 0xBD, CHR 0x91, CHR 0xE7, CHR 0xBB, CHR 0x9C]"

text \<open>\<^verbatim>\<open>kw_username\<close>: U+7528 U+6237 U+540D, the word for user name (3 characters).\<close>

definition kw_username :: string where
  "kw_username = [CHR 0xE7, CHR 0x94, CHR 0xA8, CHR 0xE6, CHR 0x88, CHR 0xB7, CHR 0xE5,
     CHR 0x90, CHR 0x8D]"

text \<open>\<^verbatim>\<open>kw_password\<close>: U+5BC6 U+7801, the word for password (2 characters).\<close>

definition kw_password :: string where
  "kw_password = [CHR 0xE5, CHR 0xAF, CHR 0x86, CHR 0xE7, CHR 0xA0, CHR 0x81]"

text \<open>\<^verbatim>\<open>kw_timeout_zh\<close>: U+8D85 U+65F6, the word for timed out (2 characters).\<close>

definition kw_timeout_zh :: string where
  "kw_timeout_zh = [CHR 0xE8, CHR 0xB6, CHR 0x85, CHR 0xE6, CHR 0x97, CHR 0xB6]"

text \<open>\<^verbatim>\<open>msg_network\<close>: network connection failed, check the settings and retry (17 characters).\<close>

definition msg_network :: string where
  "msg_network = [CHR 0xE7, CHR 0xBD, CHR 0x91, CHR 0xE7, CHR 0xBB, CHR 0x9C, CHR 0xE8,
     CHR 0xBF, CHR 0x9E, CHR 0xE6, CHR 0x8E, CHR 0xA5, CHR 0xE5, CHR 0xA4, CHR 0xB1, CHR 0xE8,
     CHR 0xB4, CHR 0xA5, CHR 0xEF, CHR 0xBC, CHR 0x8C, CHR 0xE8, CHR 0xAF, CHR 0xB7, CHR 0xE6,
     CHR 0xA3, CHR 0x80, CHR 0xE6, CHR 0x9F, CHR 0xA5, CHR 0xE7, CHR 0xBD, CHR 0x91, CHR 0xE7,
     CHR 0xBB, CHR 0x9C, CHR 0xE8, CHR 0xAE, CHR 0xBE, CHR 0xE7, CHR 0xBD, CHR 0xAE, CHR 0xE5,
     CHR 0x90, CHR 0x8E, CHR 0xE9, CHR 0x87, CHR 0x8D, CHR 0xE8, CHR 0xAF, CHR 0x95]"

text \<open>\<^verbatim>\<open>msg_400\<close>: user name or password badly formed, check the input (17 characters).\<close>

definition msg_400 :: string where
  "msg_400 = [CHR 0xE7, CHR 0x94, CHR 0xA8, CHR 0xE6, CHR 0x88, CHR 0xB7, CHR 0xE5, CHR 0x90,
     CHR 0x8D, CHR 0xE6, CHR 0x88, CHR 0x96, CHR 0xE5, CHR 0xAF, CHR 0x86, CHR 0xE7, CHR 0xA0,
     CHR 0x81, CHR 0xE6, CHR 0xA0, CHR 0xBC, CHR 0xE5, CHR 0xBC, CHR 0x8F, CHR 0xE4, CHR 0xB8,
     CHR 0x8D, CHR 0xE6, CHR 0xAD, CHR 0xA3, CHR 0xE7, CHR 0xA1, CHR 0xAE, CHR 0xEF, CHR 0xBC,
     CHR 0x8C, CHR 0xE8, CHR 0xAF, CHR 0xB7, CHR 0xE6, CHR 0xA3, CHR 0x80, CHR 0xE6, CHR 0x9F,
     CHR 0xA5, CHR 0xE8, CHR 0xBE, CHR 0x93, CHR 0xE5, CHR 0x85, CHR 0xA5]"

text \<open>\<^verbatim>\<open>msg_401\<close>: wrong user name or password, enter again (14 characters).\<close>

definition msg_401 :: string where
  "msg_401 = [CHR 0xE7, CHR 0x94, CHR 0xA8, CHR 0xE6, CHR 0x88, CHR 0xB7, CHR 0xE5, CHR 0x90,
     CHR 0x8D, CHR 0xE6, CHR 0x88, CHR 0x96, CHR 0xE5, CHR 0xAF, CHR 0x86, CHR 0xE7, CHR 0xA0,
     CHR 0x81, CHR 0xE9, CHR 0x94, CHR 0x99, CHR 0xE8, CHR 0xAF, CHR 0xAF, CHR 0xEF, CHR 0xBC,
     CHR 0x8C, CHR 0xE8, CHR 0xAF, CHR 0xB7, CHR 0xE9, CHR 0x87, CHR 0x8D, CHR 0xE6, CHR 0x96,
     CHR 0xB0, CHR 0xE8, CHR 0xBE, CHR 0x93, CHR 0xE5, CHR 0x85, CHR 0xA5]"

text \<open>\<^verbatim>\<open>msg_403\<close>: account disabled or not permitted, contact the administrator (17 characters).\<close>

definition msg_403 :: string where
  "msg_403 = [CHR 0xE8, CHR 0xB4, CHR 0xA6, CHR 0xE6, CHR 0x88, CHR 0xB7, CHR 0xE8, CHR 0xA2,
     CHR 0xAB, CHR 0xE7, CHR 0xA6, CHR 0x81, CHR 0xE7, CHR 0x94, CHR 0xA8, CHR 0xE6, CHR 0x88,
     CHR 0x96, CHR 0xE6, CHR 0x9D, CHR 0x83, CHR 0xE9, CHR 0x99, CHR 0x90, CHR 0xE4, CHR 0xB8,
     CHR 0x8D, CHR 0xE8, CHR 0xB6, CHR 0xB3, CHR 0xEF, CHR 0xBC, CHR 0x8C, CHR 0xE8, CHR 0xAF,
     CHR 0xB7, CHR 0xE8, CHR 0x81, CHR 0x94, CHR 0xE7, CHR 0xB3, CHR 0xBB, CHR 0xE7, CHR 0xAE,
     CHR 0xA1, CHR 0xE7, CHR 0x90, CHR 0x86, CHR 0xE5, CHR 0x91, CHR 0x98]"

text \<open>\<^verbatim>\<open>msg_429\<close>: too many login attempts, try later (14 characters).\<close>

definition msg_429 :: string where
  "msg_429 = [CHR 0xE7, CHR 0x99, CHR 0xBB, CHR 0xE5, CHR 0xBD, CHR 0x95, CHR 0xE5, CHR 0xB0,
     CHR 0x9D, CHR 0xE8, CHR 0xAF, CHR 0x95, CHR 0xE8, CHR 0xBF, CHR 0x87, CHR 0xE4, CHR 0xBA,
     CHR 0x8E, CHR 0xE9, CHR 0xA2, CHR 0x91, CHR 0xE7, CHR 0xB9, CHR 0x81, CHR 0xEF, CHR 0xBC,
     CHR 0x8C, CHR 0xE8, CHR 0xAF, CHR 0xB7, CHR 0xE7, CHR 0xA8, CHR 0x8D, CHR 0xE5, CHR 0x90,
     CHR 0x8E, CHR 0xE5, CHR 0x86, CHR 0x8D, CHR 0xE8, CHR 0xAF, CHR 0x95]"

text \<open>\<^verbatim>\<open>msg_5xx\<close>: server temporarily unavailable, retry later (14 characters).\<close>

definition msg_5xx :: string where
  "msg_5xx = [CHR 0xE6, CHR 0x9C, CHR 0x8D, CHR 0xE5, CHR 0x8A, CHR 0xA1, CHR 0xE5, CHR 0x99,
     CHR 0xA8, CHR 0xE4, CHR 0xB8, CHR 0xB4, CHR 0xE6, CHR 0x97, CHR 0xB6, CHR 0xE4, CHR 0xB8,
     CHR 0x8D, CHR 0xE5, CHR 0x8F, CHR 0xAF, CHR 0xE7, CHR 0x94, CHR 0xA8, CHR 0xEF, CHR 0xBC,
     CHR 0x8C, CHR 0xE8, CHR 0xAF, CHR 0xB7, CHR 0xE7, CHR 0xA8, CHR 0x8D, CHR 0xE5, CHR 0x90,
     CHR 0x8E, CHR 0xE9, CHR 0x87, CHR 0x8D, CHR 0xE8, CHR 0xAF, CHR 0x95]"

text \<open>\<^verbatim>\<open>msg_no_user\<close>: user name does not exist, check it (17 characters).\<close>

definition msg_no_user :: string where
  "msg_no_user = [CHR 0xE7, CHR 0x94, CHR 0xA8, CHR 0xE6, CHR 0x88, CHR 0xB7, CHR 0xE5,
     CHR 0x90, CHR 0x8D, CHR 0xE4, CHR 0xB8, CHR 0x8D, CHR 0xE5, CHR 0xAD, CHR 0x98, CHR 0xE5,
     CHR 0x9C, CHR 0xA8, CHR 0xEF, CHR 0xBC, CHR 0x8C, CHR 0xE8, CHR 0xAF, CHR 0xB7, CHR 0xE6,
     CHR 0xA3, CHR 0x80, CHR 0xE6, CHR 0x9F, CHR 0xA5, CHR 0xE7, CHR 0x94, CHR 0xA8, CHR 0xE6,
     CHR 0x88, CHR 0xB7, CHR 0xE5, CHR 0x90, CHR 0x8D, CHR 0xE6, CHR 0x98, CHR 0xAF, CHR 0xE5,
     CHR 0x90, CHR 0xA6, CHR 0xE6, CHR 0xAD, CHR 0xA3, CHR 0xE7, CHR 0xA1, CHR 0xAE]"

text \<open>\<^verbatim>\<open>msg_bad_password\<close>: wrong password, enter the right one (15 characters).\<close>

definition msg_bad_password :: string where
  "msg_bad_password = [CHR 0xE5, CHR 0xAF, CHR 0x86, CHR 0xE7, CHR 0xA0, CHR 0x81, CHR 0xE9,
     CHR 0x94, CHR 0x99, CHR 0xE8, CHR 0xAF, CHR 0xAF, CHR 0xEF, CHR 0xBC, CHR 0x8C, CHR 0xE8,
     CHR 0xAF, CHR 0xB7, CHR 0xE9, CHR 0x87, CHR 0x8D, CHR 0xE6, CHR 0x96, CHR 0xB0, CHR 0xE8,
     CHR 0xBE, CHR 0x93, CHR 0xE5, CHR 0x85, CHR 0xA5, CHR 0xE6, CHR 0xAD, CHR 0xA3, CHR 0xE7,
     CHR 0xA1, CHR 0xAE, CHR 0xE7, CHR 0x9A, CHR 0x84, CHR 0xE5, CHR 0xAF, CHR 0x86, CHR 0xE7,
     CHR 0xA0, CHR 0x81]"

text \<open>\<^verbatim>\<open>msg_timeout\<close>: connection timed out, check the network and retry (13 characters).\<close>

definition msg_timeout :: string where
  "msg_timeout = [CHR 0xE8, CHR 0xBF, CHR 0x9E, CHR 0xE6, CHR 0x8E, CHR 0xA5, CHR 0xE8,
     CHR 0xB6, CHR 0x85, CHR 0xE6, CHR 0x97, CHR 0xB6, CHR 0xEF, CHR 0xBC, CHR 0x8C, CHR 0xE8,
     CHR 0xAF, CHR 0xB7, CHR 0xE6, CHR 0xA3, CHR 0x80, CHR 0xE6, CHR 0x9F, CHR 0xA5, CHR 0xE7,
     CHR 0xBD, CHR 0x91, CHR 0xE7, CHR 0xBB, CHR 0x9C, CHR 0xE5, CHR 0x90, CHR 0x8E, CHR 0xE9,
     CHR 0x87, CHR 0x8D, CHR 0xE8, CHR 0xAF, CHR 0x95]"

text \<open>\<^verbatim>\<open>msg_unknown\<close>: login failed, retry later (10 characters).\<close>

definition msg_unknown :: string where
  "msg_unknown = [CHR 0xE7, CHR 0x99, CHR 0xBB, CHR 0xE5, CHR 0xBD, CHR 0x95, CHR 0xE5,
     CHR 0xA4, CHR 0xB1, CHR 0xE8, CHR 0xB4, CHR 0xA5, CHR 0xEF, CHR 0xBC, CHR 0x8C, CHR 0xE8,
     CHR 0xAF, CHR 0xB7, CHR 0xE7, CHR 0xA8, CHR 0x8D, CHR 0xE5, CHR 0x90, CHR 0x8E, CHR 0xE9,
     CHR 0x87, CHR 0x8D, CHR 0xE8, CHR 0xAF, CHR 0x95]"

text \<open>\<^verbatim>\<open>msg_request_failed\<close>: request failed (4 characters).\<close>

definition msg_request_failed :: string where
  "msg_request_failed = [CHR 0xE8, CHR 0xAF, CHR 0xB7, CHR 0xE6, CHR 0xB1, CHR 0x82, CHR 0xE5,
     CHR 0xA4, CHR 0xB1, CHR 0xE8, CHR 0xB4, CHR 0xA5]"

text \<open>\<^verbatim>\<open>label_username\<close>: the user-name word, a colon and a space (5 characters).\<close>

definition label_username :: string where
  "label_username = [CHR 0xE7, CHR 0x94, CHR 0xA8, CHR 0xE6, CHR 0x88, CHR 0xB7, CHR 0xE5,
     CHR 0x90, CHR 0x8D, CHR 0x3A, CHR 0x20]"

text \<open>\<^verbatim>\<open>label_password\<close>: the password word, a colon and a space (4 characters).\<close>

definition label_password :: string where
  "label_password = [CHR 0xE5, CHR 0xAF, CHR 0x86, CHR 0xE7, CHR 0xA0, CHR 0x81, CHR 0x3A,
     CHR 0x20]"

text \<open>\<^verbatim>\<open>msg_api_network\<close>: network connection failed, check the settings (14 characters).\<close>

definition msg_api_network :: string where
  "msg_api_network = [CHR 0xE7, CHR 0xBD, CHR 0x91, CHR 0xE7, CHR 0xBB, CHR 0x9C, CHR 0xE8,
     CHR 0xBF, CHR 0x9E, CHR 0xE6, CHR 0x8E, CHR 0xA5, CHR 0xE5, CHR 0xA4, CHR 0xB1, CHR 0xE8,
     CHR 0xB4, CHR 0xA5, CHR 0xEF, CHR 0xBC, CHR 0x8C, CHR 0xE8, CHR 0xAF, CHR 0xB7, CHR 0xE6,
     CHR 0xA3, CHR 0x80, CHR 0xE6, CHR 0x9F, CHR 0xA5, CHR 0xE7, CHR 0xBD, CHR 0x91, CHR 0xE7,
     CHR 0xBB, CHR 0x9C, CHR 0xE8, CHR 0xAE, CHR 0xBE, CHR 0xE7, CHR 0xBD, CHR 0xAE]"

text \<open>\<^verbatim>\<open>msg_api_unknown\<close>: unknown error (4 characters).\<close>

definition msg_api_unknown :: string where
  "msg_api_unknown = [CHR 0xE6, CHR 0x9C, CHR 0xAA, CHR 0xE7, CHR 0x9F, CHR 0xA5, CHR 0xE9,
     CHR 0x94, CHR 0x99, CHR 0xE8, CHR 0xAF, CHR 0xAF]"

text \<open>\<^verbatim>\<open>msg_thunk_401\<close>: wrong user name or password, check and retry: the message the login thunk of the auth slice stores for a 401, which the login screen hands to the classifier as the message of a status-less object (15 characters).\<close>

definition msg_thunk_401 :: string where
  "msg_thunk_401 = [CHR 0xE7, CHR 0x94, CHR 0xA8, CHR 0xE6, CHR 0x88, CHR 0xB7, CHR 0xE5,
     CHR 0x90, CHR 0x8D, CHR 0xE6, CHR 0x88, CHR 0x96, CHR 0xE5, CHR 0xAF, CHR 0x86, CHR 0xE7,
     CHR 0xA0, CHR 0x81, CHR 0xE9, CHR 0x94, CHR 0x99, CHR 0xE8, CHR 0xAF, CHR 0xAF, CHR 0xEF,
     CHR 0xBC, CHR 0x8C, CHR 0xE8, CHR 0xAF, CHR 0xB7, CHR 0xE6, CHR 0xA3, CHR 0x80, CHR 0xE6,
     CHR 0x9F, CHR 0xA5, CHR 0xE5, CHR 0x90, CHR 0x8E, CHR 0xE9, CHR 0x87, CHR 0x8D, CHR 0xE8,
     CHR 0xAF, CHR 0x95]"

text \<open>
  Values of type \<^verbatim>\<open>any\<close>: what a parsed response body or a caught value can be.
  Numbers are integers (HTTP statuses); an object is the list of its properties in
  order, with distinct names (a lookup reads the first binding of a name), and
  holds no functions.
\<close>

datatype js_value =
    Undefined
  | Null
  | Bool bool
  | Number int
  | Str string
  | Array "js_value list"
  | Object "(string \<times> js_value) list"

text \<open>
  The request configuration of axios, as far as the interceptors touch it:
  \<^verbatim>\<open>headers\<close> may be undefined, \<^verbatim>\<open>retry\<close> is the hidden marker
  \<^verbatim>\<open>_retry\<close>. An \<^verbatim>\<open>AxiosError\<close> carries the configuration of the failed
  request, the response if one arrived, whether a request was made
  (\<^verbatim>\<open>error.request\<close>), a message and a code.
\<close>

record request_config =
  url :: string
  headers :: "(string \<times> string) list option"
  retry :: bool

record axios_response =
  data :: js_value
  status :: int

record axios_error =
  config :: "request_config option"
  response :: "axios_response option"
  request :: bool
  ax_message :: string
  code :: "string option"

text \<open>What a \<^verbatim>\<open>throw\<close> or a rejected promise carries.\<close>

datatype js_exception =
    AxiosError axios_error
  | SyntaxError
  | TypeError
  | StorageError

text \<open>\<^verbatim>\<open>if (v)\<close>, \<^verbatim>\<open>!v\<close>, \<^verbatim>\<open>v || d\<close>: JavaScript truthiness.\<close>

fun truthy :: "js_value \<Rightarrow> bool" where
  "truthy Undefined = False"
| "truthy Null = False"
| "truthy (Bool b) = b"
| "truthy (Number n) = (n \<noteq> 0)"
| "truthy (Str s) = (s \<noteq> [])"
| "truthy (Array xs) = True"
| "truthy (Object kvs) = True"

text \<open>
  \<^verbatim>\<open>v.key\<close> for the data properties the sources read (\<^verbatim>\<open>status\<close>,
  \<^verbatim>\<open>message\<close>, \<^verbatim>\<open>detail\<close>, ...): a \<^verbatim>\<open>TypeError\<close> on
  \<^verbatim>\<open>null\<close> and \<^verbatim>\<open>undefined\<close>, the property or \<^verbatim>\<open>undefined\<close>
  on an object, \<^verbatim>\<open>undefined\<close> on primitives and arrays, which carry none of
  these names.
\<close>

fun get_property :: "js_value \<Rightarrow> string \<Rightarrow> js_exception + js_value" where
  "get_property Undefined key = Inl TypeError"
| "get_property Null key = Inl TypeError"
| "get_property (Object kvs) key =
     Inr (case map_of kvs key of None \<Rightarrow> Undefined | Some v \<Rightarrow> v)"
| "get_property (Bool b) key = Inr Undefined"
| "get_property (Number n) key = Inr Undefined"
| "get_property (Str s) key = Inr Undefined"
| "get_property (Array xs) key = Inr Undefined"

text \<open>\<^verbatim>\<open>v?.key\<close>: optional chaining stops at \<^verbatim>\<open>null\<close> and \<^verbatim>\<open>undefined\<close>.\<close>

fun get_optional :: "js_value \<Rightarrow> string \<Rightarrow> js_value" where
  "get_optional (Object kvs) key = (case map_of kvs key of None \<Rightarrow> Undefined | Some v \<Rightarrow> v)"
| "get_optional v key = Undefined"

text \<open>\<^verbatim>\<open>String.prototype.includes\<close>: substring search.\<close>

fun startsWith :: "string \<Rightarrow> string \<Rightarrow> bool" where
  "startsWith s [] = True"
| "startsWith [] (p # ps) = False"
| "startsWith (c # cs) (p # ps) = (c = p \<and> startsWith cs ps)"

fun string_includes :: "string \<Rightarrow> string \<Rightarrow> bool" where
  "string_includes [] p = (p = [])"
| "string_includes (c # cs) p = (startsWith (c # cs) p \<or> string_includes cs p)"

text \<open>
  The method call \<^verbatim>\<open>m.includes(p)\<close> on a value \<^verbatim>\<open>m\<close> that is neither
  \<^verbatim>\<open>null\<close> nor \<^verbatim>\<open>undefined\<close>: substring search on a string, membership on
  an array, and a \<^verbatim>\<open>TypeError\<close> (not a function) on a boolean, a number or a
  plain object.
\<close>

fun call_includes :: "js_value \<Rightarrow> string \<Rightarrow> js_exception + bool" where
  "call_includes (Str s) p = Inr (string_includes s p)"
| "call_includes (Array xs) p = Inr (Str p \<in> set xs)"
| "call_includes v p = Inl TypeError"

text \<open>
  The values on which \<^verbatim>\<open>m?.includes(p)\<close> does not throw: the nullish ones,
  where \<^verbatim>\<open>?.\<close> stops, strings and arrays.
\<close>

fun searchable :: "js_value \<Rightarrow> bool" where
  "searchable Undefined = True"
| "searchable Null = True"
| "searchable (Str s) = True"
| "searchable (Array xs) = True"
| "searchable (Bool b) = False"
| "searchable (Number n) = False"
| "searchable (Object kvs) = False"

text \<open>Decimal digits of a number, \<^verbatim>\<open>Array.prototype.join\<close> and \<^verbatim>\<open>ToString\<close>.\<close>

fun digits :: "nat \<Rightarrow> string" where
  "digits n =
     (if n < 10 then [''0123456789'' ! n]
      else digits (n div 10) @ [''0123456789'' ! (n mod 10)])"

fun join :: "string \<Rightarrow> string list \<Rightarrow> string" where
  "join sep [] = []"
| "join sep [x] = x"
| "join sep (x # y # ys) = x @ sep @ join sep (y # ys)"

fun ToString :: "js_value \<Rightarrow> string" where
  "ToString Undefined = ''undefined''"
| "ToString Null = ''null''"
| "ToString (Bool b) = (if b then ''true'' else ''false'')"
| "ToString (Number n) = (if n < 0 then ''-'' @ digits (nat (- n)) else digits (nat n))"
| "ToString (Str s) = s"
| "ToString (Array xs) =
     join '','' (map (\<lambda>x. case x of Undefined \<Rightarrow> [] | Null \<Rightarrow> [] | _ \<Rightarrow> ToString x) xs)"
| "ToString (Object kvs) = ''[object Object]''"

definition array_join :: "js_value list \<Rightarrow> string \<Rightarrow> string" where
  "array_join xs sep =
     join sep (map (\<lambda>x. case x of Undefined \<Rightarrow> [] | Null \<Rightarrow> [] | _ \<Rightarrow> ToString x) xs)"

section \<open>The error classifier\<close>

datatype error_type = network | validation | authentication | server | unknown

record LoginError =
  type :: error_type
  message :: string
  originalError :: js_value
  retryable :: bool

text \<open>
  The first test of \<^verbatim>\<open>parseLoginError\<close>,
  \<^verbatim>\<open>!error.status && error.message?.includes(kw_network)\<close>. The right operand is
  evaluated only when the status is falsy; \<^verbatim>\<open>?.\<close> guards the property read, not
  the call, so a message that is neither nullish, a string nor an array throws.
\<close>

definition network_test :: "js_value \<Rightarrow> js_exception + bool" where
  "network_test error =
     (case get_property error ''status'' of
        Inl e \<Rightarrow> Inl e
      | Inr st \<Rightarrow>
          if truthy st then Inr False
          else (case get_property error ''message'' of
                  Inl e \<Rightarrow> Inl e
                | Inr Undefined \<Rightarrow> Inr False
                | Inr Null \<Rightarrow> Inr False
                | Inr m \<Rightarrow> call_includes m kw_network))"

text \<open>
  The \<^verbatim>\<open>default\<close> branch of the switch: the keyword tests on
  \<^verbatim>\<open>error.message || ''\<close>, in source order.
\<close>

definition default_case :: "js_value \<Rightarrow> js_exception + LoginError" where
  "default_case error =
     (case get_property error ''message'' of
        Inl e \<Rightarrow> Inl e
      | Inr m \<Rightarrow>
          let errorMessage = (if truthy m then m else Str []) in
          (case call_includes errorMessage kw_username of
             Inl e \<Rightarrow> Inl e
           | Inr True \<Rightarrow>
               Inr \<lparr>type = validation, message = msg_no_user,
                    originalError = error, retryable = False\<rparr>
           | Inr False \<Rightarrow>
               (case call_includes errorMessage kw_password of
                  Inl e \<Rightarrow> Inl e
                | Inr True \<Rightarrow>
                    Inr \<lparr>type = authentication, message = msg_bad_password,
                         originalError = error, retryable = False\<rparr>
                | Inr False \<Rightarrow>
                    (case call_includes errorMessage kw_timeout_zh of
                       Inl e \<Rightarrow> Inl e
                     | Inr t1 \<Rightarrow>
                         (case (if t1 then Inr True
                                else call_includes errorMessage ''timeout'') of
                            Inl e \<Rightarrow> Inl e
                          | Inr True \<Rightarrow>
                              Inr \<lparr>type = network, message = msg_timeout,
                                   originalError = error, retryable = True\<rparr>
                          | Inr False \<Rightarrow>
                              Inr \<lparr>type = unknown, message = msg_unknown,
                                   originalError = error, retryable = True\<rparr>)))))"

text \<open>
  \<^verbatim>\<open>parseLoginError\<close>: the network test, then the switch on
  \<^verbatim>\<open>error.status\<close> with strict equality (only the number matches a case label).
  \<^verbatim>\<open>Inl\<close> is the exception the call throws.
\<close>

definition parseLoginError :: "js_value \<Rightarrow> js_exception + LoginError" where
  "parseLoginError error =
     (case network_test error of
        Inl e \<Rightarrow> Inl e
      | Inr True \<Rightarrow>
          Inr \<lparr>type = network, message = msg_network,
               originalError = error, retryable = True\<rparr>
      | Inr False \<Rightarrow>
          (case get_property error ''status'' of
             Inl e \<Rightarrow> Inl e
           | Inr st \<Rightarrow>
               if st = Number 400 then
                 Inr \<lparr>type = validation, message = msg_400,
                      originalError = error, retryable = False\<rparr>
               else if st = Number 401 then
                 Inr \<lparr>type = authentication, message = msg_401,
                      originalError = error, retryable = False\<rparr>
               else if st = Number 403 then
                 Inr \<lparr>type = authentication, message = msg_403,
                      originalError = error, retryable = False\<rparr>
               else if st = Number 429 then
                 Inr \<lparr>type = server, message = msg_429,
                      originalError = error, retryable = True\<rparr>
               else if st = Number 500 \<or> st = Number 502 \<or> st = Number 503 then
                 Inr \<lparr>type = server, message = msg_5xx,
                      originalError = error, retryable = True\<rparr>
               else default_case error))"

text \<open>
  \<^verbatim>\<open>handleApiError\<close> (the version that reads the Django REST framework body
  shapes): the \<^verbatim>\<open>ApiError\<close> object literal it returns, which the API functions
  throw to their callers.
\<close>

definition response_message :: "js_value \<Rightarrow> js_value" where
  "response_message responseData =
     (if truthy (get_optional responseData ''detail'') then
        get_optional responseData ''detail''
      else if truthy (get_optional responseData ''non_field_errors'') then
        (case get_optional responseData ''non_field_errors'' of
           Array xs \<Rightarrow> Str (array_join xs '', '')
         | v \<Rightarrow> v)
      else if truthy (get_optional responseData ''username'') then
        Str (label_username @
          (case get_optional responseData ''username'' of
             Array xs \<Rightarrow> array_join xs '', ''
           | v \<Rightarrow> ToString v))
      else if truthy (get_optional responseData ''password'') then
        Str (label_password @
          (case get_optional responseData ''password'' of
             Array xs \<Rightarrow> array_join xs '', ''
           | v \<Rightarrow> ToString v))
      else if truthy (get_optional responseData ''message'') then
        get_optional responseData ''message''
      else (case responseData of
              Str s \<Rightarrow> responseData
            | _ \<Rightarrow> Str msg_request_failed))"

definition handleApiError :: "axios_error \<Rightarrow> js_value" where
  "handleApiError error =
     (case response error of
        Some resp \<Rightarrow>
          Object [(''message'', response_message (data resp)),
                  (''status'', Number (status resp)),
                  (''code'', get_optional (data resp) ''code'')]
      | None \<Rightarrow>
          if request error then
            Object [(''message'', Str msg_api_network), (''code'', Str ''NETWORK_ERROR'')]
          else
            Object [(''message'',
                     Str (if ax_message error \<noteq> [] then ax_message error
                          else msg_api_unknown)),
                    (''code'', Str ''UNKNOWN_ERROR'')])"

section \<open>The credential store\<close>

record AuthTokens =
  access :: string
  refresh :: string

text \<open>
  The store holds text. The sources use a stored text in two ways only: they test
  it for truthiness and they hand it to \<^verbatim>\<open>JSON.parse\<close>, annotating the result as
  \<^verbatim>\<open>AuthTokens\<close>. A text is therefore represented by what these two make of it:
  the serialisation of a token pair, the empty string, or a non-empty text that
  \<^verbatim>\<open>JSON.parse\<close> rejects. \<^verbatim>\<open>JSON.stringify\<close> of a pair is a text that
  \<^verbatim>\<open>JSON.parse\<close> reads back as that pair. Texts that parse to anything but a
  token pair are left out, as the annotation of the sources assumes: the key is
  written by these sources only.
\<close>

datatype stored_text = TokensText AuthTokens | EmptyText | BadText

fun JSON_parse :: "stored_text \<Rightarrow> js_exception + AuthTokens" where
  "JSON_parse (TokensText t) = Inr t"
| "JSON_parse EmptyText = Inl SyntaxError"
| "JSON_parse BadText = Inl SyntaxError"

definition JSON_stringify :: "AuthTokens \<Rightarrow> stored_text" where
  "JSON_stringify t = TokensText t"

fun text_truthy :: "stored_text option \<Rightarrow> bool" where
  "text_truthy None = False"
| "text_truthy (Some EmptyText) = False"
| "text_truthy (Some (TokensText t)) = True"
| "text_truthy (Some BadText) = True"

text \<open>
  What the pipeline does to the outside world, in order: calls of the platform's
  key-value store, posts to the refresh endpoint and dispatches of a request.
\<close>

datatype event =
    PlatformGet string
  | PlatformSet string stored_text
  | PlatformDelete string
  | RefreshPosted string
  | Dispatched request_config

text \<open>
  The platform's key-value store (\<^verbatim>\<open>localStorage\<close> on the web,
  \<^verbatim>\<open>SecureStore\<close> elsewhere; the sources treat both alike). Each of its three
  operations may throw; the three flags say which do, and stay as they are while a
  call runs. A rejected write or deletion leaves the stored content as it was.
\<close>

record world =
  items :: "string \<Rightarrow> stored_text option"
  get_rejects :: bool
  set_rejects :: bool
  delete_rejects :: bool
  log :: "event list"

definition record_event :: "event \<Rightarrow> world \<Rightarrow> world" where
  "record_event ev w = w\<lparr>log := log w @ [ev]\<rparr>"

definition platform_get :: "string \<Rightarrow> world \<Rightarrow> (js_exception + stored_text option) \<times> world" where
  "platform_get key w =
     (if get_rejects w then (Inl StorageError, record_event (PlatformGet key) w)
      else (Inr (items w key), record_event (PlatformGet key) w))"

definition platform_set :: "string \<Rightarrow> stored_text \<Rightarrow> world \<Rightarrow> (js_exception + unit) \<times> world" where
  "platform_set key v w =
     (if set_rejects w then (Inl StorageError, record_event (PlatformSet key v) w)
      else (Inr (), record_event (PlatformSet key v) (w\<lparr>items := (items w)(key \<mapsto> v)\<rparr>)))"

definition platform_delete :: "string \<Rightarrow> world \<Rightarrow> (js_exception + unit) \<times> world" where
  "platform_delete key w =
     (if delete_rejects w then (Inl StorageError, record_event (PlatformDelete key) w)
      else (Inr (), record_event (PlatformDelete key) (w\<lparr>items := (items w)(key := None)\<rparr>)))"

definition TOKEN_KEY :: string where
  "TOKEN_KEY = ''auth_tokens''"

text \<open>
  \<^verbatim>\<open>secureStorage\<close>: each function wraps the platform call in
  \<^verbatim>\<open>try/catch\<close>; the handler logs to the console and, for \<^verbatim>\<open>getItem\<close>,
  returns \<^verbatim>\<open>null\<close>.
\<close>

definition getItem :: "string \<Rightarrow> world \<Rightarrow> stored_text option \<times> world" where
  "getItem key w =
     (case platform_get key w of
        (Inl e, w1) \<Rightarrow> (None, w1)
      | (Inr v, w1) \<Rightarrow> (v, w1))"

definition setItem :: "string \<Rightarrow> stored_text \<Rightarrow> world \<Rightarrow> (js_exception + unit) \<times> world" where
  "setItem key v w =
     (case platform_set key v w of
        (Inl e, w1) \<Rightarrow> (Inr (), w1)
      | (Inr u, w1) \<Rightarrow> (Inr (), w1))"

definition deleteItem :: "string \<Rightarrow> world \<Rightarrow> (js_exception + unit) \<times> world" where
  "deleteItem key w =
     (case platform_delete key w of
        (Inl e, w1) \<Rightarrow> (Inr (), w1)
      | (Inr u, w1) \<Rightarrow> (Inr (), w1))"

section \<open>The request pipeline\<close>

text \<open>
  The backend as the client sees it: the outcome of dispatching a request (the
  error comes without its \<^verbatim>\<open>config\<close>, which axios fills in) and the outcome of
  \<^verbatim>\<open>POST /token/refresh/\<close> with a refresh token, \<^verbatim>\<open>Inr\<close> carrying
  \<^verbatim>\<open>refreshResponse.data.access\<close>.
\<close>

record backend =
  dispatch :: "request_config \<Rightarrow> axios_error + axios_response"
  token_refresh :: "string \<Rightarrow> axios_error + string"

definition set_authorization :: "string \<Rightarrow> request_config \<Rightarrow> request_config" where
  "set_authorization token cfg =
     cfg\<lparr>headers :=
       Some (AList.update ''Authorization'' (''Bearer '' @ token)
         (case headers cfg of None \<Rightarrow> [] | Some hs \<Rightarrow> hs))\<rparr>"

definition authorization :: "request_config \<Rightarrow> string option" where
  "authorization cfg = (case headers cfg of None \<Rightarrow> None | Some hs \<Rightarrow> map_of hs ''Authorization'')"

text \<open>
  The request interceptor. \<^verbatim>\<open>request_try\<close> is the body of its \<^verbatim>\<open>try\<close>
  block, \<^verbatim>\<open>Inl\<close> the exception thrown there; the \<^verbatim>\<open>catch\<close> logs it and
  the interceptor returns the configuration in every case. (Its second handler,
  which passes a rejection on, has nothing before it in the chain to reject.)
\<close>

definition request_try :: "request_config \<Rightarrow> world \<Rightarrow> (js_exception + request_config) \<times> world" where
  "request_try cfg w =
     (case getItem TOKEN_KEY w of
        (tokens, w1) \<Rightarrow>
          if text_truthy tokens then
            (case tokens of
               None \<Rightarrow> (Inr cfg, w1)
             | Some text \<Rightarrow>
                 (case JSON_parse text of
                    Inl e \<Rightarrow> (Inl e, w1)
                  | Inr parsedTokens \<Rightarrow> (Inr (set_authorization (access parsedTokens) cfg), w1)))
          else (Inr cfg, w1))"

definition request_interceptor :: "request_config \<Rightarrow> world \<Rightarrow> request_config \<times> world" where
  "request_interceptor cfg w =
     (case request_try cfg w of
        (Inl e, w1) \<Rightarrow> (cfg, w1)
      | (Inr cfg1, w1) \<Rightarrow> (cfg1, w1))"

text \<open>
  The \<^verbatim>\<open>try\<close> block of the response interceptor up to its \<^verbatim>\<open>return\<close>:
  \<^verbatim>\<open>Inl\<close> is an exception thrown in it (which the \<^verbatim>\<open>catch\<close> receives),
  \<^verbatim>\<open>Inr (Some r)\<close> the request it is about to send again, \<^verbatim>\<open>Inr None\<close> the
  fall through when no token text is stored.
\<close>

definition refresh_try ::
  "backend \<Rightarrow> request_config \<Rightarrow> world \<Rightarrow> (js_exception + request_config option) \<times> world" where
  "refresh_try net originalRequest w =
     (case getItem TOKEN_KEY w of
        (tokens, w1) \<Rightarrow>
          if text_truthy tokens then
            (case tokens of
               None \<Rightarrow> (Inr None, w1)
             | Some text \<Rightarrow>
                 (case JSON_parse text of
                    Inl e \<Rightarrow> (Inl e, w1)
                  | Inr parsedTokens \<Rightarrow>
                      (case token_refresh net (refresh parsedTokens) of
                         Inl e \<Rightarrow>
                           (Inl (AxiosError e),
                            record_event (RefreshPosted (refresh parsedTokens)) w1)
                       | Inr new_access \<Rightarrow>
                           (case setItem TOKEN_KEY
                                   (JSON_stringify
                                     \<lparr>access = new_access, refresh = refresh parsedTokens\<rparr>)
                                   (record_event (RefreshPosted (refresh parsedTokens)) w1) of
                              (Inl e, w3) \<Rightarrow> (Inl e, w3)
                            | (Inr u, w3) \<Rightarrow>
                                (Inr (Some (set_authorization new_access originalRequest)),
                                 w3)))))
          else (Inr None, w1))"

definition is_401 :: "axios_error \<Rightarrow> bool" where
  "is_401 error = (case response error of None \<Rightarrow> False | Some r \<Rightarrow> status r = 401)"

text \<open>
  \<^verbatim>\<open>apiClient(config)\<close>: the request interceptor, the dispatch, and on failure
  the response interceptor's error handler \<^verbatim>\<open>response_rejected\<close>, which may call
  \<^verbatim>\<open>apiClient\<close> again on the request it has marked. The error handed to the
  handler carries the configuration that was dispatched. A rejection of the retry
  is not caught by the handler's \<^verbatim>\<open>catch\<close>: the promise is returned, not
  awaited.
\<close>

function apiClient ::
    "backend \<Rightarrow> request_config \<Rightarrow> world \<Rightarrow> (js_exception + axios_response) \<times> world"
  and response_rejected ::
    "backend \<Rightarrow> axios_error \<Rightarrow> world \<Rightarrow> (js_exception + axios_response) \<times> world"
where
  "apiClient net cfg w =
     (case request_interceptor cfg w of
        (cfg1, w1) \<Rightarrow>
          (case dispatch net cfg1 of
             Inr resp \<Rightarrow> (Inr resp, record_event (Dispatched cfg1) w1)
           | Inl err \<Rightarrow>
               response_rejected net (err\<lparr>config := Some cfg1\<rparr>)
                 (record_event (Dispatched cfg1) w1)))"
| "response_rejected net error w =
     (case config error of
        None \<Rightarrow> (Inl (AxiosError error), w)
      | Some originalRequest \<Rightarrow>
          if is_401 error \<and> \<not> retry originalRequest then
            (case refresh_try net (originalRequest\<lparr>retry := True\<rparr>) w of
               (Inl refreshError, w1) \<Rightarrow>
                 (case deleteItem TOKEN_KEY w1 of (u, w2) \<Rightarrow> (Inl refreshError, w2))
             | (Inr (Some retryRequest), w1) \<Rightarrow> apiClient net retryRequest w1
             | (Inr None, w1) \<Rightarrow>
                 (Inl (AxiosError (error\<lparr>config := Some (originalRequest\<lparr>retry := True\<rparr>)\<rparr>)),
                  w1))
          else (Inl (AxiosError error), w))"
  by pat_completeness auto

termination
  apply (relation "measure (\<lambda>x. case x of
            Inl (net, cfg, w) \<Rightarrow> (if retry cfg then 1 else 3)
          | Inr (net, err, w) \<Rightarrow>
              (case config err of None \<Rightarrow> 0 | Some c \<Rightarrow> if retry c then 0 else 2))")
    apply simp
   apply (auto simp: request_interceptor_def request_try_def set_authorization_def
               split: prod.splits sum.splits if_splits option.splits)[1]
  apply (auto simp: refresh_try_def set_authorization_def
              split: prod.splits sum.splits if_splits option.splits)[1]
  done

declare apiClient.simps [simp del] response_rejected.simps [simp del]

section \<open>A scenario\<close>

text \<open>
  A stored pair, a request for \<^verbatim>\<open>/me/\<close>, the failure of a backend that answers
  401 and the failure of a refresh endpoint that cannot be reached, as axios
  reports them.
\<close>

definition ex_tokens :: AuthTokens where
  "ex_tokens = \<lparr>access = ''a1'', refresh = ''r1''\<rparr>"

definition ex_request :: request_config where
  "ex_request =
     \<lparr>url = ''/me/'', headers = Some [(''Content-Type'', ''application/json'')], retry = False\<rparr>"

definition ex_world :: world where
  "ex_world =
     \<lparr>items = [TOKEN_KEY \<mapsto> JSON_stringify ex_tokens], get_rejects = False,
      set_rejects = False, delete_rejects = False, log = []\<rparr>"

definition ex_401 :: axios_error where
  "ex_401 =
     \<lparr>config = None,
      response = Some \<lparr>data = Object [(''detail'', Str ''Token is invalid or expired'')],
                       status = 401\<rparr>,
      request = True, ax_message = ''Request failed with status code 401'',
      code = Some ''ERR_BAD_REQUEST''\<rparr>"

definition ex_offline :: axios_error where
  "ex_offline =
     \<lparr>config = None, response = None, request = True, ax_message = ''Network Error'',
      code = Some ''ERR_NETWORK''\<rparr>"

definition ex_user :: axios_response where
  "ex_user = \<lparr>data = Object [(''username'', Str ''alice'')], status = 200\<rparr>"

text \<open>
  Two backends: one accepts no access token and has its refresh endpoint out of
  reach; the other accepts the access token \<^verbatim>\<open>a2\<close> only and hands it out for
  the refresh token \<^verbatim>\<open>r1\<close>.
\<close>

definition backend_down :: backend where
  "backend_down = \<lparr>dispatch = (\<lambda>cfg. Inl ex_401), token_refresh = (\<lambda>r. Inl ex_offline)\<rparr>"

definition backend_renewing :: backend where
  "backend_renewing =
     \<lparr>dispatch = (\<lambda>cfg. if authorization cfg = Some ''Bearer a2'' then Inr ex_user
                         else Inl ex_401),
      token_refresh = (\<lambda>r. if r = ''r1'' then Inr ''a2'' else Inl ex_401)\<rparr>"

section \<open>Properties of the error classifier\<close>

text \<open>\<^verbatim>\<open>string_includes\<close> is substring search.\<close>

lemma startsWith_iff: "startsWith s p \<longleftrightarrow> (\<exists>b. s = p @ b)"
  by (induction s p rule: startsWith.induct) auto

lemma string_includes_iff: "string_includes s p \<longleftrightarrow> (\<exists>a b. s = a @ p @ b)"
proof (induction s)
  case Nil
  then show ?case by auto
next
  case (Cons c cs)
  show ?case
  proof
    assume "string_includes (c # cs) p"
    then consider "startsWith (c # cs) p" | "string_includes cs p"
      by auto
    then show "\<exists>a b. c # cs = a @ p @ b"
    proof cases
      case 1
      then obtain b where "c # cs = p @ b"
        using startsWith_iff by blast
      then have "c # cs = [] @ p @ b"
        by simp
      then show ?thesis
        by blast
    next
      case 2
      then obtain a b where "cs = a @ p @ b"
        using Cons.IH by blast
      then have "c # cs = (c # a) @ p @ b"
        by simp
      then show ?thesis
        by blast
    qed
  next
    assume "\<exists>a b. c # cs = a @ p @ b"
    then obtain a b where ab: "c # cs = a @ p @ b"
      by blast
    show "string_includes (c # cs) p"
    proof (cases a)
      case Nil
      then have "startsWith (c # cs) p"
        using ab startsWith_iff by auto
      then show ?thesis
        by simp
    next
      case (Cons x xs)
      then have "cs = xs @ p @ b"
        using ab by simp
      then have "string_includes cs p"
        using Cons.IH by blast
      then show ?thesis
        by simp
    qed
  qed
qed

lemma network_test_truthy_status:
  "get_property error ''status'' = Inr st \<Longrightarrow> truthy st \<Longrightarrow> network_test error = Inr False"
  by (simp add: network_test_def)

text \<open>
  C5. An input whose \<^verbatim>\<open>status\<close> is the number 400 is classified as validation
  and not retryable; 401 and 403 as authentication and not retryable, with different
  message texts; 429 as server and retryable; 500, 502 and 503 as server and
  retryable. Nothing else about the input matters.
\<close>

theorem parseLoginError_by_status:
  "(get_property error ''status'' = Inr (Number 400) \<longrightarrow>
      parseLoginError error =
        Inr \<lparr>type = validation, message = msg_400, originalError = error, retryable = False\<rparr>) \<and>
   (get_property error ''status'' = Inr (Number 401) \<longrightarrow>
      parseLoginError error =
        Inr \<lparr>type = authentication, message = msg_401, originalError = error,
             retryable = False\<rparr>) \<and>
   (get_property error ''status'' = Inr (Number 403) \<longrightarrow>
      parseLoginError error =
        Inr \<lparr>type = authentication, message = msg_403, originalError = error,
             retryable = False\<rparr>) \<and>
   (get_property error ''status'' = Inr (Number 429) \<longrightarrow>
      parseLoginError error =
        Inr \<lparr>type = server, message = msg_429, originalError = error, retryable = True\<rparr>) \<and>
   (get_property error ''status'' = Inr (Number 500) \<or>
    get_property error ''status'' = Inr (Number 502) \<or>
    get_property error ''status'' = Inr (Number 503) \<longrightarrow>
      parseLoginError error =
        Inr \<lparr>type = server, message = msg_5xx, originalError = error, retryable = True\<rparr>) \<and>
   msg_403 \<noteq> msg_401"
proof -
  have m: "msg_403 \<noteq> msg_401"
    by (simp add: msg_403_def msg_401_def)
  have c: "parseLoginError error =
      (if n = 400 then
         Inr \<lparr>type = validation, message = msg_400, originalError = error, retryable = False\<rparr>
       else if n = 401 then
         Inr \<lparr>type = authentication, message = msg_401, originalError = error,
              retryable = False\<rparr>
       else if n = 403 then
         Inr \<lparr>type = authentication, message = msg_403, originalError = error,
              retryable = False\<rparr>
       else if n = 429 then
         Inr \<lparr>type = server, message = msg_429, originalError = error, retryable = True\<rparr>
       else if n = 500 \<or> n = 502 \<or> n = 503 then
         Inr \<lparr>type = server, message = msg_5xx, originalError = error, retryable = True\<rparr>
       else default_case error)"
    if "get_property error ''status'' = Inr (Number n)" "n \<noteq> 0" for n
    using that by (simp add: parseLoginError_def network_test_truthy_status)
  show ?thesis
    using m c [of 400] c [of 401] c [of 403] c [of 429] c [of 500] c [of 502] c [of 503]
    by auto
qed

theorem parseLoginError_by_status_witness:
  "parseLoginError (Object [(''status'', Number 400)]) =
     Inr \<lparr>type = validation, message = msg_400,
          originalError = Object [(''status'', Number 400)], retryable = False\<rparr> \<and>
   parseLoginError (Object [(''status'', Number 401), (''message'', Number 7)]) =
     Inr \<lparr>type = authentication, message = msg_401,
          originalError = Object [(''status'', Number 401), (''message'', Number 7)],
          retryable = False\<rparr> \<and>
   parseLoginError (Object [(''status'', Number 403)]) =
     Inr \<lparr>type = authentication, message = msg_403,
          originalError = Object [(''status'', Number 403)], retryable = False\<rparr> \<and>
   parseLoginError (Object [(''status'', Number 429)]) =
     Inr \<lparr>type = server, message = msg_429,
          originalError = Object [(''status'', Number 429)], retryable = True\<rparr> \<and>
   parseLoginError (Object [(''status'', Number 500)]) =
     Inr \<lparr>type = server, message = msg_5xx,
          originalError = Object [(''status'', Number 500)], retryable = True\<rparr> \<and>
   parseLoginError (Object [(''status'', Number 502)]) =
     Inr \<lparr>type = server, message = msg_5xx,
          originalError = Object [(''status'', Number 502)], retryable = True\<rparr> \<and>
   parseLoginError (Object [(''status'', Number 503)]) =
     Inr \<lparr>type = server, message = msg_5xx,
          originalError = Object [(''status'', Number 503)], retryable = True\<rparr>"
  using parseLoginError_by_status [of "Object [(''status'', Number 400)]"]
        parseLoginError_by_status [of "Object [(''status'', Number 401), (''message'', Number 7)]"]
        parseLoginError_by_status [of "Object [(''status'', Number 403)]"]
        parseLoginError_by_status [of "Object [(''status'', Number 429)]"]
        parseLoginError_by_status [of "Object [(''status'', Number 500)]"]
        parseLoginError_by_status [of "Object [(''status'', Number 502)]"]
        parseLoginError_by_status [of "Object [(''status'', Number 503)]"]
  by simp

text \<open>
  C6, as stated, fails: an input without a status is classified as network only
  through its message text. The message axios gives a refused connection,
  \<^verbatim>\<open>Network Error\<close>, names none of the keywords and the input is classified as
  unknown. The message the login thunk stores for a 401, which the login screen
  passes on as \<^verbatim>\<open>{message: error}\<close>, contains the user-name keyword and the
  input is classified as validation and not retryable.
\<close>

theorem parseLoginError_no_status_counterexample:
  "get_property (Object [(''message'', Str ''Network Error'')]) ''status'' = Inr Undefined \<and>
   parseLoginError (Object [(''message'', Str ''Network Error'')]) =
     Inr \<lparr>type = unknown, message = msg_unknown,
          originalError = Object [(''message'', Str ''Network Error'')], retryable = True\<rparr> \<and>
   get_property (Object [(''message'', Str msg_thunk_401)]) ''status'' = Inr Undefined \<and>
   parseLoginError (Object [(''message'', Str msg_thunk_401)]) =
     Inr \<lparr>type = validation, message = msg_no_user,
          originalError = Object [(''message'', Str msg_thunk_401)], retryable = False\<rparr>"
proof -
  have a: "\<not> string_includes msg_thunk_401 kw_network"
    by (simp add: msg_thunk_401_def kw_network_def)
  have b: "string_includes msg_thunk_401 kw_username"
    by (simp add: msg_thunk_401_def kw_username_def)
  have c: "msg_thunk_401 \<noteq> []"
    by (simp add: msg_thunk_401_def)
  have "parseLoginError (Object [(''message'', Str msg_thunk_401)]) =
     Inr \<lparr>type = validation, message = msg_no_user,
          originalError = Object [(''message'', Str msg_thunk_401)], retryable = False\<rparr>"
    using a b c by (simp add: parseLoginError_def network_test_def default_case_def)
  moreover have "parseLoginError (Object [(''message'', Str ''Network Error'')]) =
     Inr \<lparr>type = unknown, message = msg_unknown,
          originalError = Object [(''message'', Str ''Network Error'')], retryable = True\<rparr>"
    by (simp add: parseLoginError_def network_test_def default_case_def kw_network_def
          kw_username_def kw_password_def kw_timeout_zh_def)
  ultimately show ?thesis
    by simp
qed

lemma handleApiError_no_response:
  "response e = None \<Longrightarrow> request e \<Longrightarrow>
   handleApiError e =
     Object [(''message'', Str msg_api_network), (''code'', Str ''NETWORK_ERROR'')]"
  by (simp add: handleApiError_def)

text \<open>
  C6, amended. An input whose status is absent (or falsy) and whose message is a
  string containing the network keyword is classified as network and retryable.
  So is one whose message contains none of the network, user-name and password
  keywords but a timeout keyword. In particular an axios failure without a
  response for which the request was made (a refused connection, a failed name
  lookup, a timeout) is classified as network and retryable once
  \<^verbatim>\<open>handleApiError\<close> has given it its message.
\<close>

theorem parseLoginError_no_status:
  "(get_property error ''status'' = Inr st \<and> \<not> truthy st \<and>
    get_property error ''message'' = Inr (Str m) \<and> string_includes m kw_network \<longrightarrow>
      parseLoginError error =
        Inr \<lparr>type = network, message = msg_network, originalError = error,
             retryable = True\<rparr>) \<and>
   (get_property error ''status'' = Inr st \<and> \<not> truthy st \<and>
    get_property error ''message'' = Inr (Str m) \<and>
    \<not> string_includes m kw_network \<and> \<not> string_includes m kw_username \<and>
    \<not> string_includes m kw_password \<and>
    (string_includes m kw_timeout_zh \<or> string_includes m ''timeout'') \<longrightarrow>
      parseLoginError error =
        Inr \<lparr>type = network, message = msg_timeout, originalError = error,
             retryable = True\<rparr>) \<and>
   (response e = None \<and> request e \<longrightarrow>
      parseLoginError (handleApiError e) =
        Inr \<lparr>type = network, message = msg_network, originalError = handleApiError e,
             retryable = True\<rparr>)"
proof -
  have general: "(string_includes m kw_network \<longrightarrow>
            parseLoginError error =
              Inr \<lparr>type = network, message = msg_network, originalError = error,
                   retryable = True\<rparr>) \<and>
         (\<not> string_includes m kw_network \<and> \<not> string_includes m kw_username \<and>
          \<not> string_includes m kw_password \<and>
          (string_includes m kw_timeout_zh \<or> string_includes m ''timeout'') \<longrightarrow>
            parseLoginError error =
              Inr \<lparr>type = network, message = msg_timeout, originalError = error,
                   retryable = True\<rparr>)"
    if assms: "get_property error ''status'' = Inr st" "\<not> truthy st"
      "get_property error ''message'' = Inr (Str m)"
    for error st m
  proof -
    have nt: "network_test error = Inr (string_includes m kw_network)"
      using assms by (simp add: network_test_def)
    have st: "st \<noteq> Number 400" "st \<noteq> Number 401" "st \<noteq> Number 403" "st \<noteq> Number 429"
      "st \<noteq> Number 500" "st \<noteq> Number 502" "st \<noteq> Number 503"
      using assms(2) by auto
    have dc: "parseLoginError error = default_case error" if "\<not> string_includes m kw_network"
      using that nt st assms(1) by (simp add: parseLoginError_def)
    have em: "(if truthy (Str m) then Str m else Str []) = Str m"
      by simp
    show ?thesis
      using nt dc assms(3) em
      by (auto simp add: parseLoginError_def default_case_def Let_def simp del: truthy.simps)
  qed
  have offline: "parseLoginError (handleApiError e) =
        Inr \<lparr>type = network, message = msg_network, originalError = handleApiError e,
             retryable = True\<rparr>"
    if "response e = None" "request e"
  proof -
    have "string_includes msg_api_network kw_network"
      by (simp add: msg_api_network_def kw_network_def)
    then show ?thesis
      using general [of "handleApiError e" Undefined msg_api_network]
      by (simp add: handleApiError_no_response [OF that])
  qed
  show ?thesis
    using general [of error st m] offline by blast
qed

theorem parseLoginError_no_status_witness:
  "parseLoginError (Object [(''message'', Str msg_api_network), (''code'', Str ''NETWORK_ERROR'')]) =
     Inr \<lparr>type = network, message = msg_network,
          originalError =
            Object [(''message'', Str msg_api_network), (''code'', Str ''NETWORK_ERROR'')],
          retryable = True\<rparr> \<and>
   parseLoginError (Object [(''message'', Str ''timeout of 10000ms exceeded'')]) =
     Inr \<lparr>type = network, message = msg_timeout,
          originalError = Object [(''message'', Str ''timeout of 10000ms exceeded'')],
          retryable = True\<rparr> \<and>
   parseLoginError (handleApiError ex_offline) =
     Inr \<lparr>type = network, message = msg_network, originalError = handleApiError ex_offline,
          retryable = True\<rparr>"
proof -
  have a: "string_includes msg_api_network kw_network"
    by (simp add: msg_api_network_def kw_network_def)
  have b: "\<not> string_includes ''timeout of 10000ms exceeded'' kw_network"
    "\<not> string_includes ''timeout of 10000ms exceeded'' kw_username"
    "\<not> string_includes ''timeout of 10000ms exceeded'' kw_password"
    "string_includes ''timeout of 10000ms exceeded'' ''timeout''"
    by (simp_all add: kw_network_def kw_username_def kw_password_def)
  have c: "response ex_offline = None" "request ex_offline"
    by (simp_all add: ex_offline_def)
  show ?thesis
    using a b c
      parseLoginError_no_status [of
        "Object [(''message'', Str msg_api_network), (''code'', Str ''NETWORK_ERROR'')]"
        Undefined msg_api_network ex_offline]
      parseLoginError_no_status [of
        "Object [(''message'', Str ''timeout of 10000ms exceeded'')]"
        Undefined "''timeout of 10000ms exceeded''" ex_offline]
    by simp
qed

text \<open>
  C7, as stated, fails. The failure with status 400 and body
  \<^verbatim>\<open>{username: ["already exists"]}\<close> is turned by \<^verbatim>\<open>handleApiError\<close> into the
  object the API functions throw, and \<^verbatim>\<open>parseLoginError\<close> classifies that object
  by its status alone: no such failure yields a validation error whose message
  contains the detail text of the body.
\<close>

theorem classified_400_message_counterexample:
  "\<not> (\<exists>e r. response e =
            Some \<lparr>data = Object [(''username'', Array [Str ''already exists''])],
                  status = 400\<rparr> \<and>
          parseLoginError (handleApiError e) = Inr r \<and> type r = validation \<and>
          string_includes (message r) ''already exists'')"
proof -
  have "\<not> string_includes msg_400 ''already exists''"
    by (simp add: msg_400_def)
  moreover have "parseLoginError (handleApiError e) =
      Inr \<lparr>type = validation, message = msg_400, originalError = handleApiError e,
           retryable = False\<rparr>"
    if "response e =
          Some \<lparr>data = Object [(''username'', Array [Str ''already exists''])], status = 400\<rparr>"
    for e
    using that
    by (simp add: handleApiError_def parseLoginError_def network_test_def)
  ultimately show ?thesis
    by auto
qed

text \<open>
  C7, amended. For every failure with status 400 and that body,
  \<^verbatim>\<open>handleApiError\<close> produces a message made of the user-name label and the
  detail text of the body, with status 400; \<^verbatim>\<open>parseLoginError\<close> classifies this
  object as validation, not retryable, under the fixed message for status 400,
  and keeps the object, detail text included, as \<^verbatim>\<open>originalError\<close>.
\<close>

theorem classified_400_username:
  assumes "response e =
      Some \<lparr>data = Object [(''username'', Array [Str ''already exists''])], status = 400\<rparr>"
  shows "handleApiError e =
           Object [(''message'', Str (label_username @ ''already exists'')),
                   (''status'', Number 400), (''code'', Undefined)] \<and>
         string_includes (label_username @ ''already exists'') ''already exists'' \<and>
         parseLoginError (handleApiError e) =
           Inr \<lparr>type = validation, message = msg_400, originalError = handleApiError e,
                retryable = False\<rparr>"
proof -
  have h: "handleApiError e =
      Object [(''message'', Str (label_username @ ''already exists'')),
              (''status'', Number 400), (''code'', Undefined)]"
    using assms by (simp add: handleApiError_def response_message_def array_join_def)
  have i: "string_includes (label_username @ ''already exists'') ''already exists''"
    by (simp add: label_username_def)
  have p: "parseLoginError (handleApiError e) =
      Inr \<lparr>type = validation, message = msg_400, originalError = handleApiError e,
           retryable = False\<rparr>"
    unfolding h by (simp add: parseLoginError_def network_test_def)
  show ?thesis
    using h i p by simp
qed

theorem classified_400_username_witness:
  "handleApiError
     \<lparr>config = None,
      response =
        Some \<lparr>data = Object [(''username'', Array [Str ''already exists''])], status = 400\<rparr>,
      request = True, ax_message = ''Request failed with status code 400'', code = None\<rparr> =
     Object [(''message'', Str (label_username @ ''already exists'')),
             (''status'', Number 400), (''code'', Undefined)] \<and>
   parseLoginError
     (Object [(''message'', Str (label_username @ ''already exists'')),
              (''status'', Number 400), (''code'', Undefined)]) =
     Inr \<lparr>type = validation, message = msg_400,
          originalError =
            Object [(''message'', Str (label_username @ ''already exists'')),
                    (''status'', Number 400), (''code'', Undefined)],
          retryable = False\<rparr>"
  using classified_400_username [of
    "\<lparr>config = None,
      response =
        Some \<lparr>data = Object [(''username'', Array [Str ''already exists''])], status = 400\<rparr>,
      request = True, ax_message = ''Request failed with status code 400'', code = None\<rparr>"]
  by auto

text \<open>
  C8, as stated, fails: the classifier has no exception handler. Reading
  \<^verbatim>\<open>error.status\<close> of \<^verbatim>\<open>null\<close> or \<^verbatim>\<open>undefined\<close> throws a
  \<^verbatim>\<open>TypeError\<close>, and so does calling \<^verbatim>\<open>includes\<close> on a message that is
  a number.
\<close>

theorem parseLoginError_null_counterexample:
  "parseLoginError Null = Inl TypeError \<and> parseLoginError Undefined = Inl TypeError \<and>
   parseLoginError (Object [(''message'', Number 5)]) = Inl TypeError"
  by (simp add: parseLoginError_def network_test_def)

lemma default_case_searchable:
  assumes "get_property error ''message'' = Inr m" and "searchable m"
  shows "\<exists>r. default_case error = Inr r \<and> originalError r = error"
proof (cases m)
  case (Str s)
  then show ?thesis
    using assms(1) by (simp add: default_case_def Let_def split: bool.splits)
next
  case (Array xs)
  then show ?thesis
    using assms(1) by (simp add: default_case_def Let_def split: bool.splits)
qed (use assms in \<open>simp_all add: default_case_def Let_def split: bool.splits\<close>)

text \<open>
  C8, amended. For every input other than \<^verbatim>\<open>null\<close> and \<^verbatim>\<open>undefined\<close> whose
  \<^verbatim>\<open>message\<close> is absent, \<^verbatim>\<open>null\<close>, a string or an array, the classifier
  returns a classified error, and that error wraps the input as its
  \<^verbatim>\<open>originalError\<close>. On \<^verbatim>\<open>null\<close> and \<^verbatim>\<open>undefined\<close> it throws a
  \<^verbatim>\<open>TypeError\<close>, and so it does on an input without a truthy status whose
  message is a boolean, a number or a plain object.
\<close>

theorem parseLoginError_returns:
  "(error \<noteq> Null \<and> error \<noteq> Undefined \<and> searchable (get_optional error ''message'') \<longrightarrow>
      (\<exists>r. parseLoginError error = Inr r \<and> originalError r = error)) \<and>
   (error = Null \<or> error = Undefined \<longrightarrow> parseLoginError error = Inl TypeError) \<and>
   (error \<noteq> Null \<and> error \<noteq> Undefined \<and> \<not> truthy (get_optional error ''status'') \<and>
    \<not> searchable (get_optional error ''message'') \<longrightarrow>
      parseLoginError error = Inl TypeError)"
proof (intro conjI impI)
  assume a: "error \<noteq> Null \<and> error \<noteq> Undefined \<and> searchable (get_optional error ''message'')"
  have gs: "get_property error ''status'' = Inr (get_optional error ''status'')"
    using a by (cases error) simp_all
  have gm: "get_property error ''message'' = Inr (get_optional error ''message'')"
    using a by (cases error) simp_all
  have "\<exists>b. network_test error = Inr b"
    using gs gm a unfolding network_test_def
    by (cases "get_optional error ''message''") auto
  then obtain b where b: "network_test error = Inr b"
    by blast
  have dc: "\<exists>r. default_case error = Inr r \<and> originalError r = error"
    using gm a by (simp add: default_case_searchable)
  show "\<exists>r. parseLoginError error = Inr r \<and> originalError r = error"
    using dc unfolding parseLoginError_def b gs
    by (cases b) auto
next
  assume "error = Null \<or> error = Undefined"
  then show "parseLoginError error = Inl TypeError"
    by (auto simp add: parseLoginError_def network_test_def)
next
  assume a: "error \<noteq> Null \<and> error \<noteq> Undefined \<and> \<not> truthy (get_optional error ''status'') \<and>
    \<not> searchable (get_optional error ''message'')"
  have gs: "get_property error ''status'' = Inr (get_optional error ''status'')"
    using a by (cases error) simp_all
  have gm: "get_property error ''message'' = Inr (get_optional error ''message'')"
    using a by (cases error) simp_all
  have "network_test error = Inl TypeError"
    using gs gm a unfolding network_test_def
    by (cases "get_optional error ''message''") auto
  then show "parseLoginError error = Inl TypeError"
    by (simp add: parseLoginError_def)
qed

theorem parseLoginError_returns_witness:
  "(\<exists>r. parseLoginError (Str ''boom'') = Inr r \<and> originalError r = Str ''boom'') \<and>
   parseLoginError Null = Inl TypeError \<and>
   parseLoginError Undefined = Inl TypeError \<and>
   parseLoginError (Object [(''message'', Bool False)]) = Inl TypeError"
  using parseLoginError_returns [of "Str ''boom''"] parseLoginError_returns [of Null]
    parseLoginError_returns [of Undefined]
    parseLoginError_returns [of "Object [(''message'', Bool False)]"]
  by simp

section \<open>Properties of the credential store\<close>

lemma getItem_eq:
  "getItem key w =
     (if get_rejects w then None else items w key, record_event (PlatformGet key) w)"
  by (simp add: getItem_def platform_get_def)

lemma setItem_eq:
  "setItem key v w =
     (Inr (), record_event (PlatformSet key v)
                (if set_rejects w then w else w\<lparr>items := (items w)(key \<mapsto> v)\<rparr>))"
  by (simp add: setItem_def platform_set_def)

lemma deleteItem_eq:
  "deleteItem key w =
     (Inr (), record_event (PlatformDelete key)
                (if delete_rejects w then w else w\<lparr>items := (items w)(key := None)\<rparr>))"
  by (simp add: deleteItem_def platform_delete_def)

lemma record_event_fields [simp]:
  "items (record_event ev w) = items w"
  "get_rejects (record_event ev w) = get_rejects w"
  "set_rejects (record_event ev w) = set_rejects w"
  "delete_rejects (record_event ev w) = delete_rejects w"
  "log (record_event ev w) = log w @ [ev]"
  by (simp_all add: record_event_def)

text \<open>
  C9, as stated, fails in its second half: when the platform rejects the write,
  \<^verbatim>\<open>setItem\<close> catches the exception and completes normally.
\<close>

theorem setItem_rejected_counterexample:
  "fst (platform_set TOKEN_KEY (JSON_stringify \<lparr>access = ''a1'', refresh = ''r1''\<rparr>)
         \<lparr>items = Map.empty, get_rejects = False, set_rejects = True,
          delete_rejects = False, log = []\<rparr>) = Inl StorageError \<and>
   fst (setItem TOKEN_KEY (JSON_stringify \<lparr>access = ''a1'', refresh = ''r1''\<rparr>)
         \<lparr>items = Map.empty, get_rejects = False, set_rejects = True,
          delete_rejects = False, log = []\<rparr>) = Inr ()"
  by (simp add: setItem_def platform_set_def)

text \<open>
  C9, amended. \<^verbatim>\<open>setItem\<close> never signals an error to its caller. When the
  platform accepts the write the text stored under the key is the new one, whatever
  was there, and writing it a second time changes nothing; when the platform
  rejects the write the stored content stays as it was.
\<close>

theorem setItem_overwrites:
  "fst (setItem key v w) = Inr () \<and>
   items (snd (setItem key v w)) = (if set_rejects w then items w else (items w)(key \<mapsto> v)) \<and>
   items (snd (setItem key v (snd (setItem key v w)))) = items (snd (setItem key v w))"
  by (simp add: setItem_eq)

section \<open>Properties of the request pipeline\<close>

lemma request_try_eq:
  "request_try cfg w =
     (case fst (getItem TOKEN_KEY w) of
        Some (TokensText t) \<Rightarrow> Inr (set_authorization (access t) cfg)
      | Some BadText \<Rightarrow> Inl SyntaxError
      | _ \<Rightarrow> Inr cfg,
      record_event (PlatformGet TOKEN_KEY) w)"
  by (simp add: request_try_def getItem_eq split: option.splits stored_text.splits)

lemma request_interceptor_eq:
  "request_interceptor cfg w =
     (case fst (getItem TOKEN_KEY w) of
        Some (TokensText t) \<Rightarrow> set_authorization (access t) cfg
      | _ \<Rightarrow> cfg,
      record_event (PlatformGet TOKEN_KEY) w)"
  by (simp add: request_interceptor_def request_try_eq split: option.splits stored_text.splits)

lemma set_authorization_fields [simp]:
  "retry (set_authorization token cfg) = retry cfg"
  "url (set_authorization token cfg) = url cfg"
  "authorization (set_authorization token cfg) = Some (''Bearer '' @ token)"
  by (simp_all add: set_authorization_def authorization_def update_conv')

lemma set_authorization_twice [simp]:
  "set_authorization token (set_authorization token' cfg) = set_authorization token cfg"
  by (simp add: set_authorization_def)

lemma request_interceptor_retry [simp]:
  "retry (fst (request_interceptor cfg w)) = retry cfg"
  by (simp add: request_interceptor_eq split: option.splits stored_text.splits)

lemma response_rejected_retried:
  "config error = Some originalRequest \<Longrightarrow> retry originalRequest \<Longrightarrow>
   response_rejected net error w = (Inl (AxiosError error), w)"
  by (simp add: response_rejected.simps)

lemma apiClient_retried:
  assumes "retry cfg"
  shows "apiClient net cfg w =
     (case dispatch net (fst (request_interceptor cfg w)) of
        Inr resp \<Rightarrow> Inr resp
      | Inl err \<Rightarrow> Inl (AxiosError (err\<lparr>config := Some (fst (request_interceptor cfg w))\<rparr>)),
      record_event (Dispatched (fst (request_interceptor cfg w)))
        (record_event (PlatformGet TOKEN_KEY) w))"
proof -
  obtain cfg1 w1 where r: "request_interceptor cfg w = (cfg1, w1)"
    by (cases "request_interceptor cfg w")
  have w1: "w1 = record_event (PlatformGet TOKEN_KEY) w"
    using r by (simp add: request_interceptor_eq)
  have "retry cfg1"
    using request_interceptor_retry [of cfg w] r assms by simp
  then have "response_rejected net (err\<lparr>config := Some cfg1\<rparr>) w' =
      (Inl (AxiosError (err\<lparr>config := Some cfg1\<rparr>)), w')" for err w'
    by (simp add: response_rejected_retried)
  then show ?thesis
    using r w1 by (simp add: apiClient.simps split: sum.splits)
qed

text \<open>
  C2. When the request of a failed call already carries the retry marker, the
  response interceptor rejects with the very error it was given and does nothing
  else: the world, log included, is unchanged, so no refresh call is posted and
  nothing is dispatched again. Accordingly a call of \<^verbatim>\<open>apiClient\<close> on a marked
  request reads the store, dispatches once and returns the outcome of that one
  dispatch.
\<close>

theorem retried_request_not_refreshed:
  assumes "config error = Some originalRequest" and "retry originalRequest"
  shows "response_rejected net error w = (Inl (AxiosError error), w) \<and>
         log (snd (apiClient net originalRequest w)) =
           log w @ [PlatformGet TOKEN_KEY,
                    Dispatched (fst (request_interceptor originalRequest w))]"
  using assms by (simp add: response_rejected_retried apiClient_retried)

theorem retried_request_not_refreshed_witness:
  "response_rejected backend_renewing (ex_401\<lparr>config := Some (ex_request\<lparr>retry := True\<rparr>)\<rparr>)
     ex_world =
     (Inl (AxiosError (ex_401\<lparr>config := Some (ex_request\<lparr>retry := True\<rparr>)\<rparr>)), ex_world) \<and>
   log (snd (apiClient backend_renewing (ex_request\<lparr>retry := True\<rparr>) ex_world)) =
     log ex_world @
       [PlatformGet TOKEN_KEY,
        Dispatched (fst (request_interceptor (ex_request\<lparr>retry := True\<rparr>) ex_world))]"
  using retried_request_not_refreshed [of
    "ex_401\<lparr>config := Some (ex_request\<lparr>retry := True\<rparr>)\<rparr>" "ex_request\<lparr>retry := True\<rparr>"
    backend_renewing ex_world]
  by simp

lemma refresh_try_eq:
  "refresh_try net originalRequest w =
     (case fst (getItem TOKEN_KEY w) of
        Some (TokensText t) \<Rightarrow>
          (case token_refresh net (refresh t) of
             Inl e \<Rightarrow>
               (Inl (AxiosError e),
                record_event (RefreshPosted (refresh t)) (record_event (PlatformGet TOKEN_KEY) w))
           | Inr a \<Rightarrow>
               (Inr (Some (set_authorization a originalRequest)),
                snd (setItem TOKEN_KEY (JSON_stringify \<lparr>access = a, refresh = refresh t\<rparr>)
                       (record_event (RefreshPosted (refresh t))
                          (record_event (PlatformGet TOKEN_KEY) w)))))
      | Some BadText \<Rightarrow> (Inl SyntaxError, record_event (PlatformGet TOKEN_KEY) w)
      | _ \<Rightarrow> (Inr None, record_event (PlatformGet TOKEN_KEY) w))"
  by (simp add: refresh_try_def getItem_eq setItem_eq
           split: option.splits stored_text.splits sum.splits)

text \<open>
  C10. A 401 on an unmarked request while loading the token text yields nothing:
  the interceptor reads the store once, posts no refresh call, dispatches nothing,
  leaves the stored content as it was and rejects with the error it was given.
  The request of that error now carries the retry marker, which the source sets
  before it looks for a token (it mutates the request object the error refers to).
\<close>

theorem unauthorized_without_tokens:
  assumes "config error = Some originalRequest" and "is_401 error"
    and "\<not> retry originalRequest" and "fst (getItem TOKEN_KEY w) = None"
  shows "fst (response_rejected net error w) =
           Inl (AxiosError (error\<lparr>config := Some (originalRequest\<lparr>retry := True\<rparr>)\<rparr>)) \<and>
         items (snd (response_rejected net error w)) = items w \<and>
         log (snd (response_rejected net error w)) = log w @ [PlatformGet TOKEN_KEY]"
  using assms by (simp add: response_rejected.simps refresh_try_eq)

theorem unauthorized_without_tokens_witness:
  "fst (response_rejected backend_renewing (ex_401\<lparr>config := Some ex_request\<rparr>)
          (ex_world\<lparr>items := Map.empty\<rparr>)) =
     Inl (AxiosError (ex_401\<lparr>config := Some (ex_request\<lparr>retry := True\<rparr>)\<rparr>)) \<and>
   items (snd (response_rejected backend_renewing (ex_401\<lparr>config := Some ex_request\<rparr>)
                 (ex_world\<lparr>items := Map.empty\<rparr>))) = Map.empty \<and>
   log (snd (response_rejected backend_renewing (ex_401\<lparr>config := Some ex_request\<rparr>)
               (ex_world\<lparr>items := Map.empty\<rparr>))) = [PlatformGet TOKEN_KEY]"
proof -
  have "config (ex_401\<lparr>config := Some ex_request\<rparr>) = Some ex_request"
    by simp
  moreover have "is_401 (ex_401\<lparr>config := Some ex_request\<rparr>)"
    by (simp add: is_401_def ex_401_def)
  moreover have "\<not> retry ex_request"
    by (simp add: ex_request_def)
  moreover have "fst (getItem TOKEN_KEY (ex_world\<lparr>items := Map.empty\<rparr>)) = None"
    by (simp add: getItem_eq)
  ultimately show ?thesis
    using unauthorized_without_tokens [of "ex_401\<lparr>config := Some ex_request\<rparr>" ex_request
      "ex_world\<lparr>items := Map.empty\<rparr>" backend_renewing]
    by (simp add: ex_world_def)
qed

text \<open>
  C1, as stated, fails: when the refresh call fails, the \<^verbatim>\<open>catch\<close> block
  rejects with the failure of the refresh call. In the scenario the request for
  \<^verbatim>\<open>/me/\<close> is answered 401 and the refresh endpoint cannot be reached: the caller
  receives the refresh call's network failure, which has no response and which
  \<^verbatim>\<open>handleApiError\<close> and \<^verbatim>\<open>parseLoginError\<close> classify as network, while the
  401 they would classify as authentication.
\<close>

theorem refresh_failure_counterexample:
  "fst (apiClient backend_down ex_request ex_world) = Inl (AxiosError ex_offline) \<and>
   response ex_offline = None \<and>
   parseLoginError (handleApiError ex_offline) =
     Inr \<lparr>type = network, message = msg_network, originalError = handleApiError ex_offline,
          retryable = True\<rparr> \<and>
   parseLoginError (handleApiError ex_401) =
     Inr \<lparr>type = authentication, message = msg_401, originalError = handleApiError ex_401,
          retryable = False\<rparr>"
proof -
  have a: "fst (apiClient backend_down ex_request ex_world) = Inl (AxiosError ex_offline)"
    by (simp add: apiClient.simps response_rejected.simps request_interceptor_eq
          refresh_try_eq getItem_eq deleteItem_eq is_401_def backend_down_def ex_world_def
          ex_401_def ex_request_def JSON_stringify_def ex_tokens_def)
  have b: "handleApiError ex_offline =
      Object [(''message'', Str msg_api_network), (''code'', Str ''NETWORK_ERROR'')]"
    by (simp add: handleApiError_def ex_offline_def)
  have c: "string_includes msg_api_network kw_network"
    by (simp add: msg_api_network_def kw_network_def)
  have d: "parseLoginError (handleApiError ex_offline) =
      Inr \<lparr>type = network, message = msg_network, originalError = handleApiError ex_offline,
           retryable = True\<rparr>"
    unfolding b using c by (simp add: parseLoginError_def network_test_def)
  have e: "parseLoginError (handleApiError ex_401) =
      Inr \<lparr>type = authentication, message = msg_401, originalError = handleApiError ex_401,
           retryable = False\<rparr>"
    by (simp add: handleApiError_def ex_401_def parseLoginError_def network_test_def)
  show ?thesis
    using a d e by (simp add: ex_offline_def)
qed

text \<open>
  C1, amended. When a 401 arrives on an unmarked request, a token pair is loaded
  and the refresh call fails, the interceptor calls \<^verbatim>\<open>deleteItem\<close>, which
  removes the stored pair unless the platform rejects the deletion, and rejects
  with the failure of the refresh call. The world sees one read of the store, one
  refresh call with the stored refresh token and one deletion.
\<close>

theorem refresh_failure_clears_store:
  assumes "config error = Some originalRequest" and "is_401 error"
    and "\<not> retry originalRequest"
    and "fst (getItem TOKEN_KEY w) = Some (TokensText t)"
    and "token_refresh net (refresh t) = Inl refreshError"
  shows "fst (response_rejected net error w) = Inl (AxiosError refreshError) \<and>
         items (snd (response_rejected net error w)) =
           (if delete_rejects w then items w else (items w)(TOKEN_KEY := None)) \<and>
         log (snd (response_rejected net error w)) =
           log w @ [PlatformGet TOKEN_KEY, RefreshPosted (refresh t), PlatformDelete TOKEN_KEY]"
  using assms by (simp add: response_rejected.simps refresh_try_eq deleteItem_eq)

theorem refresh_failure_clears_store_witness:
  "fst (response_rejected backend_down (ex_401\<lparr>config := Some ex_request\<rparr>) ex_world) =
     Inl (AxiosError ex_offline) \<and>
   items (snd (response_rejected backend_down (ex_401\<lparr>config := Some ex_request\<rparr>) ex_world))
     TOKEN_KEY = None \<and>
   log (snd (response_rejected backend_down (ex_401\<lparr>config := Some ex_request\<rparr>) ex_world)) =
     [PlatformGet TOKEN_KEY, RefreshPosted ''r1'', PlatformDelete TOKEN_KEY]"
proof -
  have "config (ex_401\<lparr>config := Some ex_request\<rparr>) = Some ex_request"
    by simp
  moreover have "is_401 (ex_401\<lparr>config := Some ex_request\<rparr>)"
    by (simp add: is_401_def ex_401_def)
  moreover have "\<not> retry ex_request"
    by (simp add: ex_request_def)
  moreover have "fst (getItem TOKEN_KEY ex_world) = Some (TokensText ex_tokens)"
    by (simp add: getItem_eq ex_world_def JSON_stringify_def)
  moreover have "token_refresh backend_down (refresh ex_tokens) = Inl ex_offline"
    by (simp add: backend_down_def)
  ultimately show ?thesis
    using refresh_failure_clears_store [of "ex_401\<lparr>config := Some ex_request\<rparr>" ex_request
      ex_world ex_tokens backend_down ex_offline]
    by (simp add: ex_world_def ex_tokens_def)
qed

text \<open>
  C3, as stated, fails when the platform rejects the write of the new pair.
  \<^verbatim>\<open>setItem\<close> swallows the rejection, the stored pair stays the old one, and the
  retry runs through the request interceptor, which replaces the header the
  response interceptor has just set by the stored access token. In the scenario
  the backend has handed out \<^verbatim>\<open>a2\<close>, yet the retried request is dispatched
  with \<^verbatim>\<open>Bearer a1\<close> and the store still holds \<^verbatim>\<open>a1\<close>.
\<close>

theorem refresh_success_counterexample:
  "token_refresh backend_renewing (refresh ex_tokens) = Inr ''a2'' \<and>
   log (snd (response_rejected backend_renewing (ex_401\<lparr>config := Some ex_request\<rparr>)
               (ex_world\<lparr>set_rejects := True\<rparr>))) =
     [PlatformGet TOKEN_KEY, RefreshPosted ''r1'',
      PlatformSet TOKEN_KEY (JSON_stringify \<lparr>access = ''a2'', refresh = ''r1''\<rparr>),
      PlatformGet TOKEN_KEY,
      Dispatched \<lparr>url = ''/me/'',
                  headers = Some [(''Content-Type'', ''application/json''),
                                  (''Authorization'', ''Bearer a1'')],
                  retry = True\<rparr>] \<and>
   items (snd (response_rejected backend_renewing (ex_401\<lparr>config := Some ex_request\<rparr>)
                 (ex_world\<lparr>set_rejects := True\<rparr>))) TOKEN_KEY =
     Some (JSON_stringify \<lparr>access = ''a1'', refresh = ''r1''\<rparr>)"
  by (simp add: apiClient.simps response_rejected.simps request_interceptor_eq
        refresh_try_eq getItem_eq setItem_eq is_401_def backend_renewing_def ex_world_def
        ex_401_def ex_request_def JSON_stringify_def ex_tokens_def set_authorization_def
        authorization_def)

text \<open>
  C3, amended by the condition that the platform accepts the write. When a 401
  arrives on an unmarked request, the pair \<^verbatim>\<open>t\<close> is loaded and the refresh call
  returns the access token \<^verbatim>\<open>a\<close>, the new pair is \<^verbatim>\<open>a\<close> with the refresh token
  of \<^verbatim>\<open>t\<close>; it is what the store holds afterwards; the world sees, in this order,
  the read, the refresh call, the write of the new pair, the read by the request
  interceptor and one dispatch; the dispatched request is the original one,
  marked, with \<^verbatim>\<open>Bearer a\<close> as its authorization; and the outcome of that one
  dispatch is the outcome of the call.
\<close>

theorem refresh_success_retries_with_new_token:
  assumes "config error = Some originalRequest" and "is_401 error"
    and "\<not> retry originalRequest"
    and "fst (getItem TOKEN_KEY w) = Some (TokensText t)"
    and "token_refresh net (refresh t) = Inr a"
    and "\<not> set_rejects w"
  shows "items (snd (response_rejected net error w)) TOKEN_KEY =
           Some (JSON_stringify \<lparr>access = a, refresh = refresh t\<rparr>) \<and>
         log (snd (response_rejected net error w)) =
           log w @
             [PlatformGet TOKEN_KEY, RefreshPosted (refresh t),
              PlatformSet TOKEN_KEY (JSON_stringify \<lparr>access = a, refresh = refresh t\<rparr>),
              PlatformGet TOKEN_KEY,
              Dispatched (set_authorization a (originalRequest\<lparr>retry := True\<rparr>))] \<and>
         authorization (set_authorization a (originalRequest\<lparr>retry := True\<rparr>)) =
           Some (''Bearer '' @ a) \<and>
         fst (response_rejected net error w) =
           (case dispatch net (set_authorization a (originalRequest\<lparr>retry := True\<rparr>)) of
              Inr resp \<Rightarrow> Inr resp
            | Inl err \<Rightarrow>
                Inl (AxiosError
                  (err\<lparr>config := Some (set_authorization a (originalRequest\<lparr>retry := True\<rparr>))\<rparr>)))"
proof -
  define sent where "sent = set_authorization a (originalRequest\<lparr>retry := True\<rparr>)"
  define w3 where
    "w3 = snd (setItem TOKEN_KEY (JSON_stringify \<lparr>access = a, refresh = refresh t\<rparr>)
                (record_event (RefreshPosted (refresh t))
                   (record_event (PlatformGet TOKEN_KEY) w)))"
  have g: "\<not> get_rejects w"
    using assms(4) by (auto simp add: getItem_eq split: if_splits)
  have step: "response_rejected net error w = apiClient net sent w3"
    using assms by (simp add: response_rejected.simps refresh_try_eq sent_def w3_def)
  have w3_items: "items w3 = (items w)(TOKEN_KEY \<mapsto> JSON_stringify \<lparr>access = a, refresh = refresh t\<rparr>)"
    using assms(6) by (simp add: w3_def setItem_eq)
  have w3_log: "log w3 =
      log w @ [PlatformGet TOKEN_KEY, RefreshPosted (refresh t),
               PlatformSet TOKEN_KEY (JSON_stringify \<lparr>access = a, refresh = refresh t\<rparr>)]"
    by (simp add: w3_def setItem_eq)
  have w3_get: "fst (getItem TOKEN_KEY w3) = Some (TokensText \<lparr>access = a, refresh = refresh t\<rparr>)"
    using g assms(6) by (simp add: getItem_eq w3_def setItem_eq JSON_stringify_def)
  have again: "fst (request_interceptor sent w3) = sent"
    using w3_get by (simp add: request_interceptor_eq sent_def)
  have r: "retry sent"
    by (simp add: sent_def)
  have retry_call: "apiClient net sent w3 =
      (case dispatch net sent of
         Inr resp \<Rightarrow> Inr resp
       | Inl err \<Rightarrow> Inl (AxiosError (err\<lparr>config := Some sent\<rparr>)),
       record_event (Dispatched sent) (record_event (PlatformGet TOKEN_KEY) w3))"
    using apiClient_retried [OF r, of net w3] unfolding again .
  have auth: "authorization sent = Some (''Bearer '' @ a)"
    by (simp add: sent_def)
  show ?thesis
    unfolding step retry_call sent_def [symmetric]
    using w3_items w3_log auth by simp
qed

theorem refresh_success_retries_with_new_token_witness:
  "items (snd (response_rejected backend_renewing (ex_401\<lparr>config := Some ex_request\<rparr>) ex_world))
     TOKEN_KEY = Some (JSON_stringify \<lparr>access = ''a2'', refresh = ''r1''\<rparr>) \<and>
   log (snd (response_rejected backend_renewing (ex_401\<lparr>config := Some ex_request\<rparr>) ex_world)) =
     [PlatformGet TOKEN_KEY, RefreshPosted ''r1'',
      PlatformSet TOKEN_KEY (JSON_stringify \<lparr>access = ''a2'', refresh = ''r1''\<rparr>),
      PlatformGet TOKEN_KEY,
      Dispatched \<lparr>url = ''/me/'',
                  headers = Some [(''Content-Type'', ''application/json''),
                                  (''Authorization'', ''Bearer a2'')],
                  retry = True\<rparr>] \<and>
   fst (response_rejected backend_renewing (ex_401\<lparr>config := Some ex_request\<rparr>) ex_world) =
     Inr ex_user"
proof -
  have "config (ex_401\<lparr>config := Some ex_request\<rparr>) = Some ex_request"
    by simp
  moreover have "is_401 (ex_401\<lparr>config := Some ex_request\<rparr>)"
    by (simp add: is_401_def ex_401_def)
  moreover have "\<not> retry ex_request"
    by (simp add: ex_request_def)
  moreover have "fst (getItem TOKEN_KEY ex_world) = Some (TokensText ex_tokens)"
    by (simp add: getItem_eq ex_world_def JSON_stringify_def)
  moreover have "token_refresh backend_renewing (refresh ex_tokens) = Inr ''a2''"
    by (simp add: backend_renewing_def ex_tokens_def)
  moreover have "\<not> set_rejects ex_world"
    by (simp add: ex_world_def)
  moreover have "set_authorization ''a2'' (ex_request\<lparr>retry := True\<rparr>) =
      \<lparr>url = ''/me/'',
       headers = Some [(''Content-Type'', ''application/json''),
                       (''Authorization'', ''Bearer a2'')],
       retry = True\<rparr>"
    by (simp add: set_authorization_def ex_request_def)
  moreover have "dispatch backend_renewing
      \<lparr>url = ''/me/'',
       headers = Some [(''Content-Type'', ''application/json''),
                       (''Authorization'', ''Bearer a2'')],
       retry = True\<rparr> = Inr ex_user"
    by (simp add: backend_renewing_def authorization_def)
  ultimately show ?thesis
    using refresh_success_retries_with_new_token [of "ex_401\<lparr>config := Some ex_request\<rparr>"
      ex_request ex_world ex_tokens backend_renewing "''a2''"]
    by (simp add: ex_world_def ex_tokens_def)
qed

lemma response_rejected_log:
  "\<exists>evs. log (snd (response_rejected net error w)) = log w @ evs"
proof (cases "config error")
  case None
  then show ?thesis
    by (simp add: response_rejected.simps)
next
  case (Some originalRequest)
  show ?thesis
  proof (cases "is_401 error \<and> \<not> retry originalRequest")
    case False
    then show ?thesis
      using Some by (auto simp add: response_rejected.simps)
  next
    case True
    have r: "retry (set_authorization a (originalRequest\<lparr>retry := True\<rparr>))" for a
      by simp
    show ?thesis
      using Some True
      by (simp add: response_rejected.simps refresh_try_eq deleteItem_eq setItem_eq
            apiClient_retried [OF r]
            split: option.splits stored_text.splits sum.splits)
  qed
qed

text \<open>
  C4. Every call of \<^verbatim>\<open>apiClient\<close> first reads the store and then dispatches.
  When the read yields a token pair, the request interceptor returns the request
  with \<^verbatim>\<open>Authorization\<close> set to \<^verbatim>\<open>Bearer\<close> and the stored access token, and
  that is the request dispatched. When the read yields nothing, no exception is
  thrown in the interceptor, it returns the request as it came, with no header
  added, and that is the request dispatched.
\<close>

theorem request_carries_stored_token:
  "(fst (getItem TOKEN_KEY w) = Some (TokensText t) \<longrightarrow>
      request_try cfg w =
        (Inr (set_authorization (access t) cfg), record_event (PlatformGet TOKEN_KEY) w) \<and>
      authorization (set_authorization (access t) cfg) = Some (''Bearer '' @ access t) \<and>
      (\<exists>evs. log (snd (apiClient net cfg w)) =
         log w @ [PlatformGet TOKEN_KEY, Dispatched (set_authorization (access t) cfg)] @ evs)) \<and>
   (fst (getItem TOKEN_KEY w) = None \<longrightarrow>
      request_try cfg w = (Inr cfg, record_event (PlatformGet TOKEN_KEY) w) \<and>
      (\<exists>evs. log (snd (apiClient net cfg w)) =
         log w @ [PlatformGet TOKEN_KEY, Dispatched cfg] @ evs))"
proof -
  have d: "\<exists>evs. log (snd (apiClient net cfg w)) =
      log w @ [PlatformGet TOKEN_KEY, Dispatched (fst (request_interceptor cfg w))] @ evs"
  proof (cases "dispatch net (fst (request_interceptor cfg w))")
    case (Inr resp)
    then show ?thesis
      by (simp add: apiClient.simps request_interceptor_eq)
  next
    case (Inl err)
    obtain evs where
      "log (snd (response_rejected net (err\<lparr>config := Some (fst (request_interceptor cfg w))\<rparr>)
         (record_event (Dispatched (fst (request_interceptor cfg w)))
            (record_event (PlatformGet TOKEN_KEY) w)))) =
       log (record_event (Dispatched (fst (request_interceptor cfg w)))
              (record_event (PlatformGet TOKEN_KEY) w)) @ evs"
      using response_rejected_log by blast
    then show ?thesis
      using Inl by (simp add: apiClient.simps request_interceptor_eq)
  qed
  show ?thesis
    using d by (auto simp add: request_try_eq request_interceptor_eq)
qed

theorem request_carries_stored_token_witness:
  "request_try ex_request ex_world =
     (Inr (set_authorization ''a1'' ex_request), record_event (PlatformGet TOKEN_KEY) ex_world) \<and>
   authorization (set_authorization ''a1'' ex_request) = Some ''Bearer a1'' \<and>
   (\<exists>evs. log (snd (apiClient backend_renewing ex_request ex_world)) =
      [PlatformGet TOKEN_KEY, Dispatched (set_authorization ''a1'' ex_request)] @ evs) \<and>
   request_try ex_request (ex_world\<lparr>items := Map.empty\<rparr>) =
     (Inr ex_request, record_event (PlatformGet TOKEN_KEY) (ex_world\<lparr>items := Map.empty\<rparr>)) \<and>
   (\<exists>evs. log (snd (apiClient backend_renewing ex_request (ex_world\<lparr>items := Map.empty\<rparr>))) =
      [PlatformGet TOKEN_KEY, Dispatched ex_request] @ evs)"
proof -
  have a: "fst (getItem TOKEN_KEY ex_world) = Some (TokensText ex_tokens)"
    by (simp add: getItem_eq ex_world_def JSON_stringify_def)
  have b: "fst (getItem TOKEN_KEY (ex_world\<lparr>items := Map.empty\<rparr>)) = None"
    by (simp add: getItem_eq ex_world_def)
  have c: "access ex_tokens = ''a1''" "log ex_world = []"
    by (simp_all add: ex_tokens_def ex_world_def)
  show ?thesis
    using a b c
      request_carries_stored_token [of ex_world ex_tokens ex_request backend_renewing]
      request_carries_stored_token [of "ex_world\<lparr>items := Map.empty\<rparr>" ex_tokens ex_request
        backend_renewing]
    by simp
qed

end
